theory Spec2Isabelle
  imports Complex_Main
begin

section \<open>Thrust mapper: data model\<close>

text \<open>
  Embedding of \<^verbatim>\<open>riptide_navigation/src/thrust_mapper.cpp\<close>.
  A C++ \<^verbatim>\<open>double\<close> is modelled as a \<^typ>\<open>real\<close>: rounding, infinities and NaN
  are outside the model. The transform listener and the Ceres solver are libraries, not
  code of the node; both are parameters of the model.
\<close>

subsection \<open>Constants\<close>

definition MIN_THRUST :: real where "MIN_THRUST = - 18.0"
definition MAX_THRUST :: real where "MAX_THRUST = 18.0"

definition MASS :: real where "MASS = 48.8428"

definition Ix :: real where "Ix = 0.55649783"
definition Iy :: real where "Iy = 1.89075467"
definition Iz :: real where "Iz = 1.96057706"

subsection \<open>Vectors, messages and transforms\<close>

text \<open>\<^verbatim>\<open>struct vector\<close> with its fields x, y, z.\<close>

record vector =
  vec_x :: real
  vec_y :: real
  vec_z :: real

definition makeVector :: "real \<Rightarrow> real \<Rightarrow> real \<Rightarrow> vector" where
  "makeVector X Y Z = \<lparr>vec_x = X, vec_y = Y, vec_z = Z\<rparr>"

text \<open>The library's three-component vector (message field and transform origin).\<close>

record Vector3 =
  v3_x :: real
  v3_y :: real
  v3_z :: real

text \<open>\<^verbatim>\<open>geometry_msgs::Accel\<close>: the inbound acceleration command.\<close>

record Accel =
  linear :: Vector3
  angular :: Vector3

text \<open>\<^verbatim>\<open>tf::StampedTransform\<close>: only its origin is read.\<close>

record StampedTransform =
  getOrigin :: Vector3

text \<open>\<^verbatim>\<open>riptide_msgs::Thrust\<close> and \<^verbatim>\<open>riptide_msgs::ThrustStamped\<close>: the outbound record.\<close>

record Thrust =
  surge_stbd_hi :: real
  surge_port_hi :: real
  surge_port_lo :: real
  surge_stbd_lo :: real
  sway_fwd :: real
  sway_aft :: real
  heave_port_aft :: real
  heave_stbd_aft :: real
  heave_stbd_fwd :: real
  heave_port_fwd :: real

type_synonym time = nat

record ThrustStamped =
  stamp :: time
  force :: Thrust

subsection \<open>The transform listener\<close>

text \<open>
  The listener answers a lookup of a source frame relative to a target frame, or has no
  transform for it; \<^verbatim>\<open>lookupTransform\<close> then throws, and nothing in the node catches
  it. \<^verbatim>\<open>waitForTransform\<close> only blocks (its result is discarded), so it has no part
  in the data.
\<close>

type_synonym TransformListener = "string \<Rightarrow> string \<Rightarrow> StampedTransform option"

datatype error = LookupException string string

definition lookupTransform ::
  "TransformListener \<Rightarrow> string \<Rightarrow> string \<Rightarrow> error + StampedTransform" where
  "lookupTransform listener target_frame source_frame =
     (case listener target_frame source_frame of
        None \<Rightarrow> Inl (LookupException target_frame source_frame)
      | Some t \<Rightarrow> Inr t)"

definition bind_err :: "'e + 'a \<Rightarrow> ('a \<Rightarrow> 'e + 'b) \<Rightarrow> 'e + 'b" where
  "bind_err m k = (case m of Inl e \<Rightarrow> Inl e | Inr v \<Rightarrow> k v)"

subsection \<open>Global state read by the equations\<close>

text \<open>The six command globals and the ten thruster position globals.\<close>

record globals =
  cmdSurge :: real
  cmdSway :: real
  cmdHeave :: real
  cmdRoll :: real
  cmdPitch :: real
  cmdYaw :: real
  pos_surge_stbd_hi :: vector
  pos_surge_port_hi :: vector
  pos_surge_port_lo :: vector
  pos_surge_stbd_lo :: vector
  pos_sway_fwd :: vector
  pos_sway_aft :: vector
  pos_heave_port_aft :: vector
  pos_heave_stbd_aft :: vector
  pos_heave_stbd_fwd :: vector
  pos_heave_port_fwd :: vector

section \<open>Equations\<close>

text \<open>
  Each functor's \<^verbatim>\<open>operator()\<close> at \<^verbatim>\<open>T = double\<close>; the value written to
  \<^verbatim>\<open>residual[0]\<close> is the result. The primed arguments are the functor's parameters,
  in the order of its signature.
\<close>

definition surge :: "globals \<Rightarrow> real \<Rightarrow> real \<Rightarrow> real \<Rightarrow> real \<Rightarrow> real" where
  "surge g surge_stbd_hi' surge_port_hi' surge_port_lo' surge_stbd_lo' =
     (surge_stbd_hi' + surge_port_hi' + surge_port_lo' + surge_stbd_lo') / MASS - cmdSurge g"

definition sway :: "globals \<Rightarrow> real \<Rightarrow> real \<Rightarrow> real" where
  "sway g sway_fwd' sway_aft' = (sway_fwd' + sway_aft') / MASS - cmdSway g"

definition heave :: "globals \<Rightarrow> real \<Rightarrow> real \<Rightarrow> real \<Rightarrow> real \<Rightarrow> real" where
  "heave g heave_port_aft' heave_stbd_aft' heave_stbd_fwd' heave_port_fwd' =
     (heave_port_aft' + heave_stbd_aft' + heave_stbd_fwd' + heave_port_fwd') / MASS - cmdHeave g"

definition roll ::
  "globals \<Rightarrow> real \<Rightarrow> real \<Rightarrow> real \<Rightarrow> real \<Rightarrow> real \<Rightarrow> real \<Rightarrow> real" where
  "roll g heave_port_aft' heave_stbd_aft' heave_stbd_fwd' heave_port_fwd' sway_fwd' sway_aft' =
     (heave_port_aft' * vec_y (pos_heave_port_aft g)
      + heave_stbd_aft' * vec_y (pos_heave_stbd_aft g)
      + heave_stbd_fwd' * vec_y (pos_heave_stbd_fwd g)
      + heave_port_fwd' * vec_y (pos_heave_port_fwd g)
      + sway_fwd' * vec_z (pos_sway_fwd g)
      + sway_aft' * vec_z (pos_sway_aft g)) / Ix - cmdRoll g"

definition pitch ::
  "globals \<Rightarrow> real \<Rightarrow> real \<Rightarrow> real \<Rightarrow> real \<Rightarrow> real \<Rightarrow> real \<Rightarrow> real \<Rightarrow> real \<Rightarrow> real" where
  "pitch g surge_stbd_hi' surge_port_hi' surge_port_lo' surge_stbd_lo'
         heave_port_aft' heave_stbd_aft' heave_stbd_fwd' heave_port_fwd' =
     (surge_stbd_hi' * vec_z (pos_surge_stbd_hi g)
      + surge_port_hi' * vec_z (pos_surge_port_hi g)
      + surge_port_lo' * vec_z (pos_surge_port_lo g)
      + surge_stbd_lo' * vec_z (pos_surge_stbd_lo g)
      + heave_port_aft' * vec_x (pos_heave_port_aft g)
      + heave_stbd_aft' * vec_x (pos_heave_stbd_aft g)
      + heave_stbd_fwd' * vec_x (pos_heave_stbd_fwd g)
      + heave_port_fwd' * vec_x (pos_heave_port_fwd g)) / Iy - cmdPitch g"

definition yaw ::
  "globals \<Rightarrow> real \<Rightarrow> real \<Rightarrow> real \<Rightarrow> real \<Rightarrow> real \<Rightarrow> real \<Rightarrow> real" where
  "yaw g surge_stbd_hi' surge_port_hi' surge_port_lo' surge_stbd_lo' sway_fwd' sway_aft' =
     (surge_stbd_hi' * vec_y (pos_surge_stbd_hi g)
      + surge_port_hi' * vec_y (pos_surge_port_hi g)
      + surge_port_lo' * vec_y (pos_surge_port_lo g)
      + surge_stbd_lo' * vec_y (pos_surge_stbd_lo g)
      + sway_fwd' * vec_x (pos_sway_fwd g)
      + sway_aft' * vec_x (pos_sway_aft g)) / Iz - cmdYaw g"

section \<open>The optimisation problem\<close>

text \<open>
  The ten result members of the class are the unknowns; the solver reads and writes them
  through their addresses. A value of \<open>var\<close> is the address of one member, and a
  store is the memory at these ten addresses.
\<close>

datatype var =
  Surge_stbd_hi | Surge_port_hi | Surge_port_lo | Surge_stbd_lo
  | Sway_fwd | Sway_aft
  | Heave_port_aft | Heave_stbd_aft | Heave_stbd_fwd | Heave_port_fwd

type_synonym store = "var \<Rightarrow> real"

text \<open>
  A residual block: one of the six cost functors with the addresses of its parameter
  blocks (each of size 1), as \<^verbatim>\<open>AutoDiffCostFunction\<close> fixes their number.
\<close>

datatype residual_block =
  SurgeBlock var var var var
  | SwayBlock var var
  | HeaveBlock var var var var
  | RollBlock var var var var var var
  | PitchBlock var var var var var var var var
  | YawBlock var var var var var var

record Problem =
  residual_blocks :: "residual_block list"
  lower_bound :: "var \<rightharpoonup> real"
  upper_bound :: "var \<rightharpoonup> real"

text \<open>
  A new problem has no blocks and no bounds (an unknown without a bound is free on that
  side). Every parameter block has size 1, so the index 0 that the bound setters take is
  left out.
\<close>

definition empty_Problem :: Problem where
  "empty_Problem = \<lparr>residual_blocks = [], lower_bound = Map.empty, upper_bound = Map.empty\<rparr>"

definition AddResidualBlock :: "residual_block \<Rightarrow> Problem \<Rightarrow> Problem" where
  "AddResidualBlock b pr = pr\<lparr>residual_blocks := residual_blocks pr @ [b]\<rparr>"

definition SetParameterLowerBound :: "var \<Rightarrow> real \<Rightarrow> Problem \<Rightarrow> Problem" where
  "SetParameterLowerBound p v pr = pr\<lparr>lower_bound := (lower_bound pr)(p \<mapsto> v)\<rparr>"

definition SetParameterUpperBound :: "var \<Rightarrow> real \<Rightarrow> Problem \<Rightarrow> Problem" where
  "SetParameterUpperBound p v pr = pr\<lparr>upper_bound := (upper_bound pr)(p \<mapsto> v)\<rparr>"

text \<open>The value of a block's residual at a store: the functor applied to the pointed-to values.\<close>

fun Evaluate :: "globals \<Rightarrow> residual_block \<Rightarrow> store \<Rightarrow> real" where
  "Evaluate g (SurgeBlock a b c d) v = surge g (v a) (v b) (v c) (v d)"
| "Evaluate g (SwayBlock a b) v = sway g (v a) (v b)"
| "Evaluate g (HeaveBlock a b c d) v = heave g (v a) (v b) (v c) (v d)"
| "Evaluate g (RollBlock a b c d e f) v = roll g (v a) (v b) (v c) (v d) (v e) (v f)"
| "Evaluate g (PitchBlock a b c d e f h i) v =
     pitch g (v a) (v b) (v c) (v d) (v e) (v f) (v h) (v i)"
| "Evaluate g (YawBlock a b c d e f) v = yaw g (v a) (v b) (v c) (v d) (v e) (v f)"

datatype linear_solver_type = DENSE_QR

record Options =
  max_num_iterations :: nat
  linear_solver_type :: linear_solver_type

datatype TerminationType = CONVERGENCE | NO_CONVERGENCE | FAILURE

record Summary =
  termination_type :: TerminationType
  num_iterations :: nat

text \<open>
  \<^verbatim>\<open>ceres::Solve(options, &problem, &summary)\<close>: from the options, the problem, the
  residual of each block as a function of the unknowns, and the unknowns' current values,
  the new values of the unknowns and the summary. The solver is a function of these inputs.
\<close>

type_synonym solver =
  "Options \<Rightarrow> Problem \<Rightarrow> (residual_block \<Rightarrow> store \<Rightarrow> real) \<Rightarrow> store \<Rightarrow> store \<times> Summary"

section \<open>The Solver class\<close>

text \<open>
  The state of the node: the globals, the members of \<^verbatim>\<open>Solver\<close> that carry data,
  and the messages handed to the publisher so far, oldest first.
\<close>

record state =
  globals :: globals
  thrust :: ThrustStamped
  problem :: Problem
  options :: Options
  summary :: Summary
  vars :: store
  published :: "ThrustStamped list"

text \<open>
  The part of the constructor under \<^verbatim>\<open>PROBLEM SETUP\<close>: its statements on the
  problem, first to last.
\<close>

definition problem_setup :: "Problem \<Rightarrow> Problem" where
  "problem_setup =
     fold (\<lambda>statement. statement)
      [AddResidualBlock (SurgeBlock Surge_stbd_hi Surge_port_hi Surge_port_lo Surge_stbd_lo),
       AddResidualBlock (SwayBlock Sway_fwd Sway_aft),
       AddResidualBlock (HeaveBlock Heave_port_aft Heave_stbd_aft Heave_stbd_fwd Heave_port_fwd),
       AddResidualBlock
         (RollBlock Heave_port_aft Heave_stbd_aft Heave_stbd_fwd Heave_port_fwd Sway_fwd Sway_aft),
       AddResidualBlock
         (PitchBlock Surge_stbd_hi Surge_port_hi Surge_port_lo Surge_stbd_lo
            Heave_port_aft Heave_stbd_aft Heave_stbd_fwd Heave_port_fwd),
       AddResidualBlock
         (YawBlock Surge_stbd_hi Surge_port_hi Surge_port_lo Surge_stbd_lo Sway_fwd Sway_aft),
       SetParameterLowerBound Surge_port_hi MIN_THRUST,
       SetParameterUpperBound Surge_port_hi MAX_THRUST,
       SetParameterLowerBound Surge_stbd_hi MIN_THRUST,
       SetParameterUpperBound Surge_stbd_hi MAX_THRUST,
       SetParameterLowerBound Surge_port_lo MIN_THRUST,
       SetParameterUpperBound Surge_port_lo MAX_THRUST,
       SetParameterLowerBound Surge_stbd_lo MIN_THRUST,
       SetParameterUpperBound Surge_stbd_lo MAX_THRUST,
       SetParameterLowerBound Sway_fwd MIN_THRUST,
       SetParameterUpperBound Sway_fwd MAX_THRUST,
       SetParameterLowerBound Sway_aft MIN_THRUST,
       SetParameterUpperBound Sway_aft MAX_THRUST,
       SetParameterLowerBound Heave_port_fwd MIN_THRUST,
       SetParameterUpperBound Heave_port_fwd MAX_THRUST,
       SetParameterLowerBound Heave_stbd_fwd MIN_THRUST,
       SetParameterUpperBound Heave_stbd_fwd MAX_THRUST,
       SetParameterLowerBound Heave_port_aft MIN_THRUST,
       SetParameterUpperBound Heave_port_aft MAX_THRUST,
       SetParameterLowerBound Heave_stbd_aft MIN_THRUST,
       SetParameterUpperBound Heave_stbd_aft MAX_THRUST]"

definition origin_vector :: "StampedTransform \<Rightarrow> vector" where
  "origin_vector t = makeVector (v3_x (getOrigin t)) (v3_y (getOrigin t)) (v3_z (getOrigin t))"

text \<open>
  The constructor. The ten lookups run in the order of the source, each into the member
  transform the source names; the first lookup without a transform ends the constructor
  with the exception. The members the constructor leaves uninitialised (the ten unknowns)
  and default-constructed (message, summary) come in as \<open>mem\<close>, \<open>msg\<close> and \<open>summ\<close>;
  the command globals start at 0.
\<close>

definition Solver ::
  "TransformListener \<Rightarrow> store \<Rightarrow> ThrustStamped \<Rightarrow> Summary \<Rightarrow> error + state" where
  "Solver listener mem msg summ =
     bind_err (lookupTransform listener ''/base_link'' ''/surge_port_hi_thruster'') (\<lambda>surge_2.
     bind_err (lookupTransform listener ''/base_link'' ''/surge_stbd_hi_thruster'') (\<lambda>surge_1.
     bind_err (lookupTransform listener ''/base_link'' ''/surge_port_lo_thruster'') (\<lambda>surge_4.
     bind_err (lookupTransform listener ''/base_link'' ''/surge_stbd_lo_thruster'') (\<lambda>surge_3.
     bind_err (lookupTransform listener ''/base_link'' ''/sway_fwd_thruster'') (\<lambda>sway_1.
     bind_err (lookupTransform listener ''/base_link'' ''/sway_aft_thruster'') (\<lambda>sway_2.
     bind_err (lookupTransform listener ''/base_link'' ''/heave_port_fwd_thruster'') (\<lambda>heave_2.
     bind_err (lookupTransform listener ''/base_link'' ''/heave_stbd_fwd_thruster'') (\<lambda>heave_1.
     bind_err (lookupTransform listener ''/base_link'' ''/heave_port_aft_thruster'') (\<lambda>heave_4.
     bind_err (lookupTransform listener ''/base_link'' ''/heave_stbd_aft_thruster'') (\<lambda>heave_3.
     Inr \<lparr>globals =
            \<lparr>cmdSurge = 0.0, cmdSway = 0.0, cmdHeave = 0.0,
             cmdRoll = 0.0, cmdPitch = 0.0, cmdYaw = 0.0,
             pos_surge_stbd_hi = origin_vector surge_1,
             pos_surge_port_hi = origin_vector surge_2,
             pos_surge_port_lo = origin_vector surge_3,
             pos_surge_stbd_lo = origin_vector surge_4,
             pos_sway_fwd = origin_vector sway_1,
             pos_sway_aft = origin_vector sway_2,
             pos_heave_port_aft = origin_vector heave_1,
             pos_heave_stbd_aft = origin_vector heave_2,
             pos_heave_stbd_fwd = origin_vector heave_3,
             pos_heave_port_fwd = origin_vector heave_4\<rparr>,
          thrust = msg,
          problem = problem_setup empty_Problem,
          options = \<lparr>max_num_iterations = 100, linear_solver_type = DENSE_QR\<rparr>,
          summary = summ,
          vars = mem,
          published = []\<rparr>))))))))))"

section \<open>One cycle\<close>

text \<open>The callback, in the order of its statements.\<close>

definition set_targets :: "Accel \<Rightarrow> globals \<Rightarrow> globals" where
  "set_targets a g =
     g\<lparr>cmdSurge := v3_x (linear a), cmdSway := v3_y (linear a), cmdHeave := v3_z (linear a),
       cmdRoll := v3_x (angular a), cmdPitch := v3_y (angular a), cmdYaw := v3_z (angular a)\<rparr>"

definition reset_unknowns :: "store \<Rightarrow> store" where
  "reset_unknowns v =
     v(Surge_stbd_hi := 0.0, Surge_port_hi := 0.0, Surge_port_lo := 0.0, Surge_stbd_lo := 0.0,
       Sway_fwd := 0.0, Sway_aft := 0.0,
       Heave_port_aft := 0.0, Heave_stbd_aft := 0.0, Heave_stbd_fwd := 0.0,
       Heave_port_fwd := 0.0)"

definition thrust_message :: "time \<Rightarrow> store \<Rightarrow> ThrustStamped" where
  "thrust_message now v =
     \<lparr>stamp = now,
      force = \<lparr>surge_stbd_hi = v Surge_stbd_hi, surge_port_hi = v Surge_port_hi,
               surge_port_lo = v Surge_port_lo, surge_stbd_lo = v Surge_stbd_lo,
               sway_fwd = v Sway_fwd, sway_aft = v Sway_aft,
               heave_port_aft = v Heave_port_aft, heave_stbd_aft = v Heave_stbd_aft,
               heave_stbd_fwd = v Heave_stbd_fwd, heave_port_fwd = v Heave_port_fwd\<rparr>\<rparr>"

definition callback :: "solver \<Rightarrow> time \<Rightarrow> Accel \<Rightarrow> state \<Rightarrow> state" where
  "callback Solve now a st =
     (let g = set_targets a (globals st);
          v0 = reset_unknowns (vars st);
          (v, summ) = Solve (options st) (problem st) (Evaluate g) v0;
          msg = thrust_message now v
      in st\<lparr>globals := g, vars := v, summary := summ, thrust := msg,
            published := published st @ [msg]\<rparr>)"

text \<open>
  \<^verbatim>\<open>loop\<close> spins: the dispatcher calls the callback once for each inbound command,
  one at a time, each with the clock's reading at its publication.
\<close>

fun loop :: "solver \<Rightarrow> (time \<times> Accel) list \<Rightarrow> state \<Rightarrow> state" where
  "loop Solve [] st = st"
| "loop Solve ((now, a) # inbound) st = loop Solve inbound (callback Solve now a st)"

section \<open>Reference definitions of the specification\<close>

text \<open>
  The thrusters by role, and the geometry table as a table: the position the node holds
  for a thruster.
\<close>

definition surge_thrusters :: "var list" where
  "surge_thrusters = [Surge_stbd_hi, Surge_port_hi, Surge_port_lo, Surge_stbd_lo]"

definition sway_thrusters :: "var list" where
  "sway_thrusters = [Sway_fwd, Sway_aft]"

definition heave_thrusters :: "var list" where
  "heave_thrusters = [Heave_port_aft, Heave_stbd_aft, Heave_stbd_fwd, Heave_port_fwd]"

definition all_thrusters :: "var list" where
  "all_thrusters = surge_thrusters @ sway_thrusters @ heave_thrusters"

fun geometry_table :: "globals \<Rightarrow> var \<Rightarrow> vector" where
  "geometry_table g Surge_stbd_hi = pos_surge_stbd_hi g"
| "geometry_table g Surge_port_hi = pos_surge_port_hi g"
| "geometry_table g Surge_port_lo = pos_surge_port_lo g"
| "geometry_table g Surge_stbd_lo = pos_surge_stbd_lo g"
| "geometry_table g Sway_fwd = pos_sway_fwd g"
| "geometry_table g Sway_aft = pos_sway_aft g"
| "geometry_table g Heave_port_aft = pos_heave_port_aft g"
| "geometry_table g Heave_stbd_aft = pos_heave_stbd_aft g"
| "geometry_table g Heave_stbd_fwd = pos_heave_stbd_fwd g"
| "geometry_table g Heave_port_fwd = pos_heave_port_fwd g"

text \<open>The frame the transform service knows a thruster by.\<close>

fun thruster_frame :: "var \<Rightarrow> string" where
  "thruster_frame Surge_stbd_hi = ''/surge_stbd_hi_thruster''"
| "thruster_frame Surge_port_hi = ''/surge_port_hi_thruster''"
| "thruster_frame Surge_port_lo = ''/surge_port_lo_thruster''"
| "thruster_frame Surge_stbd_lo = ''/surge_stbd_lo_thruster''"
| "thruster_frame Sway_fwd = ''/sway_fwd_thruster''"
| "thruster_frame Sway_aft = ''/sway_aft_thruster''"
| "thruster_frame Heave_port_aft = ''/heave_port_aft_thruster''"
| "thruster_frame Heave_stbd_aft = ''/heave_stbd_aft_thruster''"
| "thruster_frame Heave_stbd_fwd = ''/heave_stbd_fwd_thruster''"
| "thruster_frame Heave_port_fwd = ''/heave_port_fwd_thruster''"

text \<open>
  A thruster holds its own position when its entry of the geometry table is the origin the
  transform service gives for the thruster's frame relative to the body frame.
\<close>

definition own_position :: "TransformListener \<Rightarrow> globals \<Rightarrow> var \<Rightarrow> bool" where
  "own_position listener g t \<longleftrightarrow>
     map_option origin_vector (listener ''/base_link'' (thruster_frame t))
       = Some (geometry_table g t)"

text \<open>
  A linear residual: (sum of the forces of the thrusters \<open>ts\<close>) / mass - command. An
  angular residual: (the forces of \<open>ts1\<close> weighted by one offset each + the forces of
  \<open>ts2\<close> weighted by one offset each) / inertia - command.
\<close>

definition spec_linear_residual :: "var list \<Rightarrow> real \<Rightarrow> real \<Rightarrow> store \<Rightarrow> real" where
  "spec_linear_residual ts mass cmd v = (\<Sum>t\<leftarrow>ts. v t) / mass - cmd"

definition spec_angular_residual ::
  "var list \<Rightarrow> (var \<Rightarrow> real) \<Rightarrow> var list \<Rightarrow> (var \<Rightarrow> real) \<Rightarrow> real \<Rightarrow> real \<Rightarrow> store \<Rightarrow> real" where
  "spec_angular_residual ts1 offset1 ts2 offset2 inertia cmd v =
     ((\<Sum>t\<leftarrow>ts1. v t * offset1 t) + (\<Sum>t\<leftarrow>ts2. v t * offset2 t)) / inertia - cmd"

text \<open>Every force of a record within the closed interval from \<open>lo\<close> to \<open>hi\<close>.\<close>

definition Thrust_within :: "real \<Rightarrow> real \<Rightarrow> Thrust \<Rightarrow> bool" where
  "Thrust_within lo hi f \<longleftrightarrow>
     lo \<le> surge_stbd_hi f \<and> surge_stbd_hi f \<le> hi \<and> lo \<le> surge_port_hi f \<and> surge_port_hi f \<le> hi
     \<and> lo \<le> surge_port_lo f \<and> surge_port_lo f \<le> hi \<and> lo \<le> surge_stbd_lo f \<and> surge_stbd_lo f \<le> hi
     \<and> lo \<le> sway_fwd f \<and> sway_fwd f \<le> hi \<and> lo \<le> sway_aft f \<and> sway_aft f \<le> hi
     \<and> lo \<le> heave_port_aft f \<and> heave_port_aft f \<le> hi
     \<and> lo \<le> heave_stbd_aft f \<and> heave_stbd_aft f \<le> hi
     \<and> lo \<le> heave_stbd_fwd f \<and> heave_stbd_fwd f \<le> hi
     \<and> lo \<le> heave_port_fwd f \<and> heave_port_fwd f \<le> hi"

definition zero_Thrust :: Thrust where
  "zero_Thrust =
     \<lparr>surge_stbd_hi = 0, surge_port_hi = 0, surge_port_lo = 0, surge_stbd_lo = 0,
      sway_fwd = 0, sway_aft = 0,
      heave_port_aft = 0, heave_stbd_aft = 0, heave_stbd_fwd = 0, heave_port_fwd = 0\<rparr>"

definition zero_Accel :: Accel where
  "zero_Accel = \<lparr>linear = \<lparr>v3_x = 0, v3_y = 0, v3_z = 0\<rparr>,
                 angular = \<lparr>v3_x = 0, v3_y = 0, v3_z = 0\<rparr>\<rparr>"

section \<open>What the node relies on from the solver\<close>

text \<open>
  A store is feasible for a problem when every unknown with a bound respects it. The solver
  keeps a feasible start feasible: bounds are hard constraints on its iterates.
\<close>

definition feasible :: "Problem \<Rightarrow> store \<Rightarrow> bool" where
  "feasible pr v \<longleftrightarrow>
     list_all (\<lambda>p. (case lower_bound pr p of None \<Rightarrow> True | Some l \<Rightarrow> l \<le> v p)
                  \<and> (case upper_bound pr p of None \<Rightarrow> True | Some u \<Rightarrow> v p \<le> u))
       all_thrusters"

definition keeps_bounds :: "solver \<Rightarrow> bool" where
  "keeps_bounds Solve \<longleftrightarrow>
     (\<forall>opts pr ev v0. feasible pr v0 \<longrightarrow> feasible pr (fst (Solve opts pr ev v0)))"

text \<open>
  The solver searches from the start it is given and stops there when every residual of
  the problem is already zero at it.
\<close>

definition stays_at_root :: "solver \<Rightarrow> bool" where
  "stays_at_root Solve \<longleftrightarrow>
     (\<forall>opts pr ev v0. list_all (\<lambda>b. ev b v0 = 0) (residual_blocks pr)
        \<longrightarrow> fst (Solve opts pr ev v0) = v0)"

section \<open>Concrete instances\<close>

text \<open>A transform service that knows the ten thruster frames, each at its own place.\<close>

definition frame_origins :: "(string \<times> Vector3) list" where
  "frame_origins =
     [(''/surge_port_hi_thruster'', \<lparr>v3_x = - 3, v3_y = 2, v3_z = 1\<rparr>),
      (''/surge_stbd_hi_thruster'', \<lparr>v3_x = - 3, v3_y = - 2, v3_z = 1\<rparr>),
      (''/surge_port_lo_thruster'', \<lparr>v3_x = - 3, v3_y = 2, v3_z = - 1\<rparr>),
      (''/surge_stbd_lo_thruster'', \<lparr>v3_x = - 3, v3_y = - 2, v3_z = - 1\<rparr>),
      (''/sway_fwd_thruster'', \<lparr>v3_x = 4, v3_y = 0, v3_z = 1\<rparr>),
      (''/sway_aft_thruster'', \<lparr>v3_x = - 4, v3_y = 0, v3_z = 1\<rparr>),
      (''/heave_port_fwd_thruster'', \<lparr>v3_x = 5, v3_y = 2, v3_z = 0\<rparr>),
      (''/heave_stbd_fwd_thruster'', \<lparr>v3_x = 5, v3_y = - 2, v3_z = 0\<rparr>),
      (''/heave_port_aft_thruster'', \<lparr>v3_x = - 5, v3_y = 2, v3_z = 0\<rparr>),
      (''/heave_stbd_aft_thruster'', \<lparr>v3_x = - 5, v3_y = - 2, v3_z = 0\<rparr>)]"

definition tf_example :: TransformListener where
  "tf_example target_frame source_frame =
     (if target_frame = ''/base_link''
      then map_option (\<lambda>origin. \<lparr>getOrigin = origin\<rparr>) (map_of frame_origins source_frame)
      else None)"

definition msg_example :: ThrustStamped where
  "msg_example = \<lparr>stamp = 0, force = zero_Thrust\<rparr>"

definition summ_example :: Summary where
  "summ_example = \<lparr>termination_type = FAILURE, num_iterations = 0\<rparr>"

definition mem_example :: store where
  "mem_example = (\<lambda>p. 7)"

text \<open>
  A solver for the instances: it returns its start where every residual is zero, and
  otherwise one step of 100 in every unknown, cut to the unknown's bounds.
\<close>

definition cut_to_bounds :: "Problem \<Rightarrow> var \<Rightarrow> real \<Rightarrow> real" where
  "cut_to_bounds pr p r =
     (let r1 = (case lower_bound pr p of None \<Rightarrow> r | Some l \<Rightarrow> max l r)
      in case upper_bound pr p of None \<Rightarrow> r1 | Some u \<Rightarrow> min u r1)"

definition solver_example :: solver where
  "solver_example opts pr ev v0 =
     (if list_all (\<lambda>b. ev b v0 = 0) (residual_blocks pr)
      then (v0, \<lparr>termination_type = CONVERGENCE, num_iterations = 0\<rparr>)
      else (\<lambda>p. cut_to_bounds pr p (v0 p + 100),
            \<lparr>termination_type = NO_CONVERGENCE, num_iterations = max_num_iterations opts\<rparr>))"

definition surge_command :: "real \<Rightarrow> Accel" where
  "surge_command r = \<lparr>linear = \<lparr>v3_x = r, v3_y = 0, v3_z = 0\<rparr>,
                      angular = \<lparr>v3_x = 0, v3_y = 0, v3_z = 0\<rparr>\<rparr>"

text \<open>Opposed unit forces on the four surge thrusters, nothing on the others.\<close>

definition null_example :: store where
  "null_example =
     (\<lambda>p. 0)(Surge_stbd_hi := 1, Surge_port_hi := - 1, Surge_port_lo := - 1, Surge_stbd_lo := 1)"

text \<open>The state the constructor reaches with this service.\<close>

definition startup_example :: state where
  "startup_example =
     \<lparr>globals =
        \<lparr>cmdSurge = 0, cmdSway = 0, cmdHeave = 0, cmdRoll = 0, cmdPitch = 0, cmdYaw = 0,
         pos_surge_stbd_hi = \<lparr>vec_x = - 3, vec_y = - 2, vec_z = 1\<rparr>,
         pos_surge_port_hi = \<lparr>vec_x = - 3, vec_y = 2, vec_z = 1\<rparr>,
         pos_surge_port_lo = \<lparr>vec_x = - 3, vec_y = - 2, vec_z = - 1\<rparr>,
         pos_surge_stbd_lo = \<lparr>vec_x = - 3, vec_y = 2, vec_z = - 1\<rparr>,
         pos_sway_fwd = \<lparr>vec_x = 4, vec_y = 0, vec_z = 1\<rparr>,
         pos_sway_aft = \<lparr>vec_x = - 4, vec_y = 0, vec_z = 1\<rparr>,
         pos_heave_port_aft = \<lparr>vec_x = 5, vec_y = - 2, vec_z = 0\<rparr>,
         pos_heave_stbd_aft = \<lparr>vec_x = 5, vec_y = 2, vec_z = 0\<rparr>,
         pos_heave_stbd_fwd = \<lparr>vec_x = - 5, vec_y = - 2, vec_z = 0\<rparr>,
         pos_heave_port_fwd = \<lparr>vec_x = - 5, vec_y = 2, vec_z = 0\<rparr>\<rparr>,
      thrust = msg_example,
      problem = problem_setup empty_Problem,
      options = \<lparr>max_num_iterations = 100, linear_solver_type = DENSE_QR\<rparr>,
      summary = summ_example,
      vars = mem_example,
      published = []\<rparr>"

section \<open>Startup\<close>

lemma Solver_Inr_fields:
  assumes "Solver listener mem msg summ = Inr st"
  shows "problem st = problem_setup empty_Problem"
    and "options st = \<lparr>max_num_iterations = 100, linear_solver_type = DENSE_QR\<rparr>"
    and "published st = []"
  using assms
  by (auto simp add: Solver_def bind_err_def split: sum.splits)

text \<open>
  Which frame each entry of the geometry table is filled from, for every transform
  service with which startup completes.
\<close>

lemma Solver_positions:
  assumes "Solver listener mem msg summ = Inr st"
  shows "map_option origin_vector (listener ''/base_link'' ''/surge_stbd_hi_thruster'')
           = Some (pos_surge_stbd_hi (globals st))"
    and "map_option origin_vector (listener ''/base_link'' ''/surge_port_hi_thruster'')
           = Some (pos_surge_port_hi (globals st))"
    and "map_option origin_vector (listener ''/base_link'' ''/surge_stbd_lo_thruster'')
           = Some (pos_surge_port_lo (globals st))"
    and "map_option origin_vector (listener ''/base_link'' ''/surge_port_lo_thruster'')
           = Some (pos_surge_stbd_lo (globals st))"
    and "map_option origin_vector (listener ''/base_link'' ''/sway_fwd_thruster'')
           = Some (pos_sway_fwd (globals st))"
    and "map_option origin_vector (listener ''/base_link'' ''/sway_aft_thruster'')
           = Some (pos_sway_aft (globals st))"
    and "map_option origin_vector (listener ''/base_link'' ''/heave_stbd_fwd_thruster'')
           = Some (pos_heave_port_aft (globals st))"
    and "map_option origin_vector (listener ''/base_link'' ''/heave_port_fwd_thruster'')
           = Some (pos_heave_stbd_aft (globals st))"
    and "map_option origin_vector (listener ''/base_link'' ''/heave_stbd_aft_thruster'')
           = Some (pos_heave_stbd_fwd (globals st))"
    and "map_option origin_vector (listener ''/base_link'' ''/heave_port_aft_thruster'')
           = Some (pos_heave_port_fwd (globals st))"
  using assms
  by (auto simp add: Solver_def bind_err_def lookupTransform_def split: sum.splits option.splits)

lemma Solver_tf_example:
  "Solver tf_example mem_example msg_example summ_example = Inr startup_example"
  by (simp add: Solver_def bind_err_def lookupTransform_def tf_example_def frame_origins_def
      origin_vector_def makeVector_def startup_example_def)

text \<open>
  C1 (the code departs from it). The claim: after startup every thruster's entry of the
  geometry table is the position the transform service returns for that thruster's own
  frame. With the service \<open>tf_example\<close>, where the ten frames lie at ten different
  places, startup completes and only four of the ten entries are the thruster's own: the
  entries of the two low surge thrusters are each other's, each aft heave entry holds the
  position of the forward heave thruster of the other side, and each forward heave entry
  holds the position of the aft heave thruster of its own side. The list follows
  \<open>all_thrusters\<close>.
\<close>

theorem startup_positions_tf_example:
  "(case Solver tf_example mem_example msg_example summ_example of
      Inl e \<Rightarrow> [] | Inr st \<Rightarrow> map (own_position tf_example (globals st)) all_thrusters)
   = [True, True, False, False, True, True, False, False, False, False]"
  by (simp add: Solver_def bind_err_def lookupTransform_def tf_example_def frame_origins_def
      origin_vector_def makeVector_def own_position_def all_thrusters_def surge_thrusters_def
      sway_thrusters_def heave_thrusters_def)

section \<open>The equations of the problem\<close>

lemma residual_blocks_setup:
  "residual_blocks (problem_setup empty_Problem) =
     [SurgeBlock Surge_stbd_hi Surge_port_hi Surge_port_lo Surge_stbd_lo,
      SwayBlock Sway_fwd Sway_aft,
      HeaveBlock Heave_port_aft Heave_stbd_aft Heave_stbd_fwd Heave_port_fwd,
      RollBlock Heave_port_aft Heave_stbd_aft Heave_stbd_fwd Heave_port_fwd Sway_fwd Sway_aft,
      PitchBlock Surge_stbd_hi Surge_port_hi Surge_port_lo Surge_stbd_lo
        Heave_port_aft Heave_stbd_aft Heave_stbd_fwd Heave_port_fwd,
      YawBlock Surge_stbd_hi Surge_port_hi Surge_port_lo Surge_stbd_lo Sway_fwd Sway_aft]"
  by (simp add: problem_setup_def empty_Problem_def AddResidualBlock_def
      SetParameterLowerBound_def SetParameterUpperBound_def)

lemma lower_bound_setup: "lower_bound (problem_setup empty_Problem) p = Some MIN_THRUST"
  by (cases p) (simp_all add: problem_setup_def empty_Problem_def AddResidualBlock_def
      SetParameterLowerBound_def SetParameterUpperBound_def)

lemma upper_bound_setup: "upper_bound (problem_setup empty_Problem) p = Some MAX_THRUST"
  by (cases p) (simp_all add: problem_setup_def empty_Problem_def AddResidualBlock_def
      SetParameterLowerBound_def SetParameterUpperBound_def)

text \<open>
  C3. For every assignment \<open>v\<close> to the ten unknowns and every command \<open>a\<close> copied into
  the targets, the first three residuals of the problem are the reference ones:
  (sum of the four surge forces) / mass - commanded surge, (sum of the two sway forces) /
  mass - commanded sway, (sum of the four heave forces) / mass - commanded heave.
\<close>

theorem linear_residuals:
  "map (\<lambda>b. Evaluate (set_targets a g) b v) (take 3 (residual_blocks (problem_setup empty_Problem)))
   = [spec_linear_residual surge_thrusters MASS (v3_x (linear a)) v,
      spec_linear_residual sway_thrusters MASS (v3_y (linear a)) v,
      spec_linear_residual heave_thrusters MASS (v3_z (linear a)) v]"
  by (simp add: residual_blocks_setup surge_def sway_def heave_def spec_linear_residual_def
      surge_thrusters_def sway_thrusters_def heave_thrusters_def set_targets_def)

text \<open>
  C4. For every assignment to the ten unknowns and every command, the last three residuals
  of the problem weight each contributing force by one signed component of that
  thruster's entry in the geometry table: roll by the y of the heave and the z of the sway
  entries, over Ix; pitch by the z of the surge and the x of the heave entries, over Iy;
  yaw by the y of the surge and the x of the sway entries, over Iz; each minus its
  command. The reference residual receives nothing of an entry but that component, so no
  cross product of a three-dimensional lever arm enters.
\<close>

theorem angular_residuals:
  "map (\<lambda>b. Evaluate (set_targets a g) b v) (drop 3 (residual_blocks (problem_setup empty_Problem)))
   = [spec_angular_residual heave_thrusters (\<lambda>t. vec_y (geometry_table g t))
        sway_thrusters (\<lambda>t. vec_z (geometry_table g t)) Ix (v3_x (angular a)) v,
      spec_angular_residual surge_thrusters (\<lambda>t. vec_z (geometry_table g t))
        heave_thrusters (\<lambda>t. vec_x (geometry_table g t)) Iy (v3_y (angular a)) v,
      spec_angular_residual surge_thrusters (\<lambda>t. vec_y (geometry_table g t))
        sway_thrusters (\<lambda>t. vec_x (geometry_table g t)) Iz (v3_z (angular a)) v]"
  by (simp add: residual_blocks_setup roll_def pitch_def yaw_def spec_angular_residual_def
      surge_thrusters_def sway_thrusters_def heave_thrusters_def set_targets_def)

section \<open>The cycle\<close>

lemma reset_unknowns_zero: "reset_unknowns v = (\<lambda>p. 0)"
proof
  fix p show "reset_unknowns v p = 0" by (cases p) (simp_all add: reset_unknowns_def)
qed

lemma callback_eq:
  "callback Solve now a st =
     (let r = Solve (options st) (problem st) (Evaluate (set_targets a (globals st))) (\<lambda>p. 0)
      in st\<lparr>globals := set_targets a (globals st), vars := fst r, summary := snd r,
            thrust := thrust_message now (fst r),
            published := published st @ [thrust_message now (fst r)]\<rparr>)"
  by (simp add: callback_def reset_unknowns_zero Let_def split: prod.splits)

lemma callback_problem [simp]: "problem (callback Solve now a st) = problem st"
  by (simp add: callback_eq Let_def)

lemma callback_options [simp]: "options (callback Solve now a st) = options st"
  by (simp add: callback_eq Let_def)

lemma callback_published:
  "published (callback Solve now a st) =
     published st @ [thrust_message now
       (fst (Solve (options st) (problem st) (Evaluate (set_targets a (globals st))) (\<lambda>p. 0)))]"
  by (simp add: callback_eq Let_def)

lemma set_targets_twice [simp]: "set_targets a (set_targets b g) = set_targets a g"
  by (simp add: set_targets_def)

lemma callback_targets [simp]:
  "set_targets a (globals (callback Solve now b st)) = set_targets a (globals st)"
  by (simp add: callback_eq Let_def)

lemma loop_problem [simp]: "problem (loop Solve inbound st) = problem st"
  by (induction inbound arbitrary: st) auto

lemma loop_options [simp]: "options (loop Solve inbound st) = options st"
  by (induction inbound arbitrary: st) auto

lemma loop_targets [simp]:
  "set_targets a (globals (loop Solve inbound st)) = set_targets a (globals st)"
  by (induction inbound arbitrary: st) auto

lemma loop_published_length:
  "length (published (loop Solve inbound st)) = length (published st) + length inbound"
  by (induction inbound arbitrary: st) (auto simp add: callback_published)

lemma feasible_setup:
  "feasible (problem_setup empty_Problem) v \<longleftrightarrow> (\<forall>p. MIN_THRUST \<le> v p \<and> v p \<le> MAX_THRUST)"
proof
  assume f: "feasible (problem_setup empty_Problem) v"
  show "\<forall>p. MIN_THRUST \<le> v p \<and> v p \<le> MAX_THRUST"
  proof
    fix p
    have "p \<in> set all_thrusters"
      by (cases p) (simp_all add: all_thrusters_def surge_thrusters_def sway_thrusters_def
          heave_thrusters_def)
    with f show "MIN_THRUST \<le> v p \<and> v p \<le> MAX_THRUST"
      by (simp add: feasible_def list_all_iff lower_bound_setup upper_bound_setup)
  qed
next
  assume "\<forall>p. MIN_THRUST \<le> v p \<and> v p \<le> MAX_THRUST"
  then show "feasible (problem_setup empty_Problem) v"
    by (simp add: feasible_def list_all_iff lower_bound_setup upper_bound_setup)
qed

lemma thrust_message_within:
  "\<forall>p. lo \<le> v p \<and> v p \<le> hi \<Longrightarrow> Thrust_within lo hi (force (thrust_message now v))"
  by (simp add: Thrust_within_def thrust_message_def)

lemma callback_within:
  assumes kb: "keeps_bounds Solve" and pr: "problem st = problem_setup empty_Problem"
  shows "Thrust_within (- 18) 18 (force (thrust_message now
      (fst (Solve (options st) (problem st) (Evaluate g) (\<lambda>p. 0)))))"
proof -
  have "feasible (problem st) (\<lambda>p. 0)"
    by (simp add: pr feasible_setup MIN_THRUST_def MAX_THRUST_def)
  with kb have "feasible (problem st) (fst (Solve (options st) (problem st) (Evaluate g) (\<lambda>p. 0)))"
    unfolding keeps_bounds_def by blast
  then show ?thesis
    using thrust_message_within [of "- 18" _ 18]
    by (simp add: pr feasible_setup MIN_THRUST_def MAX_THRUST_def)
qed

lemma loop_within:
  assumes kb: "keeps_bounds Solve"
  shows "problem st = problem_setup empty_Problem
    \<Longrightarrow> \<forall>m \<in> set (published st). Thrust_within (- 18) 18 (force m)
    \<Longrightarrow> \<forall>m \<in> set (published (loop Solve inbound st)). Thrust_within (- 18) 18 (force m)"
proof (induction inbound arbitrary: st)
  case Nil
  then show ?case by simp
next
  case (Cons c inbound)
  obtain now a where c: "c = (now, a)" by (cases c)
  have "\<forall>m \<in> set (published (callback Solve now a st)). Thrust_within (- 18) 18 (force m)"
    using Cons.prems callback_within [OF kb Cons.prems(1)]
    by (auto simp add: callback_published)
  then show ?case
    using Cons.IH [of "callback Solve now a st"] Cons.prems(1) by (simp add: c)
qed

text \<open>
  C2. After startup, with a solver that treats bounds as hard constraints, every message
  published for any sequence of commands has all ten forces within -18 N and +18 N: each
  of the ten unknowns carries the lower bound -18 and the upper bound 18 in the problem
  handed to the solver, and the message of a cycle holds the values the solver returned,
  as returned.
\<close>

theorem forces_within_bounds:
  assumes "Solver listener mem msg summ = Inr st0" and "keeps_bounds Solve"
  shows "(\<forall>p. lower_bound (problem (loop Solve inbound st0)) p = Some (- 18)
              \<and> upper_bound (problem (loop Solve inbound st0)) p = Some 18)
    \<and> (\<forall>m \<in> set (published (loop Solve inbound st0)). Thrust_within (- 18) 18 (force m))
    \<and> published (callback Solve now a (loop Solve inbound st0)) =
        published (loop Solve inbound st0) @
          [thrust_message now
            (fst (Solve (options (loop Solve inbound st0)) (problem (loop Solve inbound st0))
               (Evaluate (set_targets a (globals (loop Solve inbound st0)))) (\<lambda>p. 0)))]"
proof -
  have pr: "problem st0 = problem_setup empty_Problem" and pub: "published st0 = []"
    using assms(1) by (rule Solver_Inr_fields)+
  have "\<forall>p. lower_bound (problem (loop Solve inbound st0)) p = Some (- 18)
              \<and> upper_bound (problem (loop Solve inbound st0)) p = Some 18"
    by (simp add: pr lower_bound_setup upper_bound_setup MIN_THRUST_def MAX_THRUST_def)
  moreover have "\<forall>m \<in> set (published (loop Solve inbound st0)). Thrust_within (- 18) 18 (force m)"
    using loop_within [OF assms(2) pr] pub by simp
  ultimately show ?thesis
    by (simp only: callback_published simp_thms)
qed

lemma keeps_bounds_solver_example: "keeps_bounds solver_example"
  unfolding keeps_bounds_def solver_example_def feasible_def list_all_iff cut_to_bounds_def
  by (auto simp add: Let_def split: option.splits)

theorem forces_within_bounds_witness:
  "Solver tf_example mem_example msg_example summ_example = Inr startup_example
   \<and> keeps_bounds solver_example
   \<and> list_all (\<lambda>m. Thrust_within (- 18) 18 (force m))
        (published (loop solver_example [(1, surge_command 3)] startup_example))"
  using forces_within_bounds [OF Solver_tf_example keeps_bounds_solver_example,
      of "[(1, surge_command 3)]"]
    Solver_tf_example keeps_bounds_solver_example
  unfolding list_all_iff by blast

lemma residuals_zero_at_reset:
  "map (\<lambda>b. Evaluate (set_targets zero_Accel g) b (\<lambda>p. 0))
     (residual_blocks (problem_setup empty_Problem)) = [0, 0, 0, 0, 0, 0]"
  by (simp add: residual_blocks_setup surge_def sway_def heave_def roll_def pitch_def yaw_def
      set_targets_def zero_Accel_def)

lemma thrust_message_zero: "force (thrust_message now (\<lambda>p. 0)) = zero_Thrust"
  by (simp add: thrust_message_def zero_Thrust_def)

text \<open>
  C5. After startup and any sequence of commands, in the cycle of the all-zero command
  all six residuals are zero at the all-zero start, and, with a solver that stays at a
  start where every residual is zero, the forces of the published message are all zero.
\<close>

theorem zero_command_zero_forces:
  assumes "Solver listener mem msg summ = Inr st0" and "stays_at_root Solve"
  shows "map (\<lambda>b. Evaluate (set_targets zero_Accel (globals (loop Solve inbound st0))) b
              (reset_unknowns (vars (loop Solve inbound st0))))
           (residual_blocks (problem (loop Solve inbound st0))) = [0, 0, 0, 0, 0, 0]
    \<and> force (last (published (callback Solve now zero_Accel (loop Solve inbound st0))))
        = zero_Thrust"
proof -
  let ?st = "loop Solve inbound st0"
  let ?g = "set_targets zero_Accel (globals ?st)"
  have pr: "problem ?st = problem_setup empty_Problem"
    using assms(1) by (simp add: Solver_Inr_fields(1))
  have z: "map (\<lambda>b. Evaluate ?g b (\<lambda>p. 0)) (residual_blocks (problem ?st)) = [0, 0, 0, 0, 0, 0]"
    unfolding pr by (rule residuals_zero_at_reset)
  have "list_all (\<lambda>b. Evaluate ?g b (\<lambda>p. 0) = 0) (residual_blocks (problem ?st))"
    unfolding pr
    by (simp add: residual_blocks_setup surge_def sway_def heave_def roll_def pitch_def yaw_def
        set_targets_def zero_Accel_def)
  with assms(2)
  have "fst (Solve (options ?st) (problem ?st) (Evaluate ?g) (\<lambda>p. 0)) = (\<lambda>p. 0)"
    unfolding stays_at_root_def by blast
  then have "force (last (published (callback Solve now zero_Accel ?st))) = zero_Thrust"
    by (simp add: callback_published thrust_message_zero)
  with z show ?thesis
    by (simp only: reset_unknowns_zero simp_thms)
qed

lemma stays_at_root_solver_example: "stays_at_root solver_example"
  by (simp add: stays_at_root_def solver_example_def)

theorem zero_command_zero_forces_witness:
  "Solver tf_example mem_example msg_example summ_example = Inr startup_example
   \<and> stays_at_root solver_example
   \<and> force (last (published (callback solver_example 2 zero_Accel
        (loop solver_example [(1, surge_command 3)] startup_example)))) = zero_Thrust"
  using zero_command_zero_forces [OF Solver_tf_example stays_at_root_solver_example,
      of "[(1, surge_command 3)]" 2]
    Solver_tf_example stays_at_root_solver_example
  by blast

text \<open>
  C6. Whatever the solver returns, summary included, a cycle appends exactly one message
  to the published ones. The message carries the time of the cycle, and each of its ten
  force fields is the value the solver returned for the unknown of the same name, read
  back as returned. So a run publishes as many messages as commands came in.
\<close>

theorem one_publication_per_command:
  "(let v = fst (Solve (options st) (problem st) (Evaluate (set_targets a (globals st)))
              (\<lambda>p. 0))
    in published (callback Solve now a st) =
         published st @
           [\<lparr>stamp = now,
             force = \<lparr>surge_stbd_hi = v Surge_stbd_hi, surge_port_hi = v Surge_port_hi,
                      surge_port_lo = v Surge_port_lo, surge_stbd_lo = v Surge_stbd_lo,
                      sway_fwd = v Sway_fwd, sway_aft = v Sway_aft,
                      heave_port_aft = v Heave_port_aft, heave_stbd_aft = v Heave_stbd_aft,
                      heave_stbd_fwd = v Heave_stbd_fwd,
                      heave_port_fwd = v Heave_port_fwd\<rparr>\<rparr>])
   \<and> length (published (loop Solve inbound st)) = length (published st) + length inbound"
  by (simp add: callback_published loop_published_length thrust_message_def Let_def)


section \<open>Single-axis commands: what the equations fix\<close>

text \<open>
  Which forces the solver returns for a command on one axis is the solver's matter and
  depends on the positions the transform service supplied. The equations alone fix the
  following. The roll residual does not read the surge unknowns.
\<close>

lemma roll_ignores_surge:
  "Evaluate g
     (RollBlock Heave_port_aft Heave_stbd_aft Heave_stbd_fwd Heave_port_fwd Sway_fwd Sway_aft)
     (v(Surge_stbd_hi := r1, Surge_port_hi := r2, Surge_port_lo := r3, Surge_stbd_lo := r4))
   = Evaluate g
       (RollBlock Heave_port_aft Heave_stbd_aft Heave_stbd_fwd Heave_port_fwd Sway_fwd Sway_aft) v"
  by simp

text \<open>
  The surge unknowns are tied to the heave and sway unknowns by the pitch and yaw
  equations, and a point where all six residuals vanish is not the only one: with the
  positions of \<open>startup_example\<close> and the zero command, all residuals vanish at
  \<open>null_example\<close> as they do at the all-zero store.
\<close>

lemma exact_solutions_not_unique:
  "map (\<lambda>b. Evaluate (set_targets zero_Accel (globals startup_example)) b null_example)
     (residual_blocks (problem startup_example)) = [0, 0, 0, 0, 0, 0]"
  by (simp add: startup_example_def residual_blocks_setup null_example_def surge_def sway_def
      heave_def roll_def pitch_def yaw_def set_targets_def zero_Accel_def)

text \<open>
  The surge residual vanishes exactly where the four surge forces sum to mass times the
  commanded surge: to 48.8428 for a command of 1.
\<close>

lemma surge_zero_iff: "surge g a b c d = 0 \<longleftrightarrow> a + b + c + d = MASS * cmdSurge g"
  by (simp add: surge_def MASS_def field_simps)

lemma surge_at_one: "cmdSurge g = 1 \<Longrightarrow> surge g a b c d = 0 \<longleftrightarrow> a + b + c + d = 48.8428"
  by (simp add: surge_def MASS_def field_simps)

text \<open>
  For a commanded surge of 3 no forces within the upper bound make the surge residual
  vanish: it stays at or below 72 / 48.8428 - 3, which is negative.
\<close>

lemma surge_saturated:
  assumes "a \<le> MAX_THRUST" "b \<le> MAX_THRUST" "c \<le> MAX_THRUST" "d \<le> MAX_THRUST"
    and "cmdSurge g = 3"
  shows "surge g a b c d \<le> 72 / 48.8428 - 3" and "surge g a b c d < 0"
  using assms by (simp_all add: surge_def MASS_def MAX_THRUST_def field_simps)

end
